theory Spec2Isabelle
  imports Complex_Main "HOL-Library.Word"
begin

section \<open>Values, exceptions and the data model\<close>

text \<open>
  The bridge of \<^verbatim>\<open>frida_exec.py\<close> forwards every operation to the agent over a
  remote-procedure channel.  Python exceptions are values of the type \<open>exn\<close>; a
  computation that may raise returns \<open>exn + 'a\<close>, with \<open>Inl\<close> the exception.
\<close>

type_synonym byte = "8 word"

text \<open>
  What a remote call can raise.  \<open>RPCException\<close> is \<^verbatim>\<open>frida.core.RPCException\<close>, the
  channel-level fault that the bridge catches; \<open>OtherChannelError\<close> stands for every
  exception of the binding that is not an instance of it (a destroyed script, a lost
  transport) and that no \<^verbatim>\<open>except\<close> clause of the bridge catches.
\<close>

datatype channel_exc = RPCException string | OtherChannelError string

text \<open>
  Modelled from the spec: the error classes \<^verbatim>\<open>QueryProcessMemoryError\<close>,
  \<^verbatim>\<open>ReadProcessMemoryError\<close> and \<^verbatim>\<open>WriteProcessMemoryError\<close> are imported from
  \<^verbatim>\<open>process_control\<close>; they are the three memory-error kinds of the error taxonomy.
  Each carries the fault it was raised \<^verbatim>\<open>from\<close> (Python's \<^verbatim>\<open>__cause__\<close>).  The other
  constructors are the builtin exceptions the code raises itself or through a
  subscript, an attribute access or \<^verbatim>\<open>int(_, 16)\<close>.
\<close>

datatype exn =
    Channel channel_exc
  | QueryProcessMemoryError channel_exc
  | ReadProcessMemoryError channel_exc
  | WriteProcessMemoryError channel_exc
  | ValueError
  | KeyError string
  | TypeError
  | AttributeError
  | NotImplementedError string

text \<open>
  Values of Python type \<^verbatim>\<open>Any\<close> that arrive over the channel are JSON values; a
  \<^verbatim>\<open>Dict[str, Any]\<close> is an association list read with \<open>map_of\<close>.  Numbers are
  integers (the agent sends sizes and counts only).
\<close>

datatype json =
    JNull
  | JBool bool
  | JNum int
  | JStr string
  | JArr "json list"
  | JObj "(string \<times> json) list"

type_synonym dict = "(string \<times> json) list"

text \<open>The subscript \<^verbatim>\<open>d[k]\<close> on a dictionary: a missing key raises \<^verbatim>\<open>KeyError\<close>.\<close>

definition getitem :: "dict \<Rightarrow> string \<Rightarrow> exn + json" where
  "getitem d k = (case map_of d k of None \<Rightarrow> Inl (KeyError k) | Some v \<Rightarrow> Inr v)"

text \<open>\<^verbatim>\<open>d.get(k, default)\<close> on a dictionary.\<close>

definition dict_get :: "dict \<Rightarrow> string \<Rightarrow> json \<Rightarrow> json" where
  "dict_get d k dflt = (case map_of d k of None \<Rightarrow> dflt | Some v \<Rightarrow> v)"

subsection \<open>Python's \<^verbatim>\<open>int(s, 16)\<close>\<close>

text \<open>
  The parser follows CPython's \<^verbatim>\<open>PyLong_FromString\<close>, a character being a code
  point below 256: surrounding whitespace is skipped, then an optional sign, an
  optional \<^verbatim>\<open>0x\<close> or \<^verbatim>\<open>0X\<close> prefix (after which one underscore may stand), then
  hexadecimal digits with single underscores between them.  Anything else raises
  \<^verbatim>\<open>ValueError\<close>; an argument that is not a string raises \<^verbatim>\<open>TypeError\<close>.  The
  whitespace that \<^verbatim>\<open>int\<close> skips is the tab, the line feed, the vertical tab, the
  form feed, the carriage return and the space, and of the code points above 127
  the next-line character U+0085 and the no-break space U+00A0 (the separators
  U+001C to U+001F are not skipped).
\<close>

definition py_isspace :: "char \<Rightarrow> bool" where
  "py_isspace c =
     (let n = (of_char c :: nat) in (9 \<le> n \<and> n \<le> 13) \<or> n = 32 \<or> n = 133 \<or> n = 160)"

definition hex_digit :: "char \<Rightarrow> nat option" where
  "hex_digit c =
     (let n = (of_char c :: nat) in
      if 48 \<le> n \<and> n \<le> 57 then Some (n - 48)
      else if 97 \<le> n \<and> n \<le> 102 then Some (n - 87)
      else if 65 \<le> n \<and> n \<le> 70 then Some (n - 55)
      else None)"

text \<open>
  The digit scan: \<open>prev_us\<close> says that the previous character was an underscore,
  \<open>acc\<close> is the value so far and \<open>n\<close> the number of digits read.  It stops at the
  first character that is neither a digit nor an underscore and returns the rest.
\<close>

fun scan_digits :: "string \<Rightarrow> bool \<Rightarrow> nat \<Rightarrow> nat \<Rightarrow> (nat \<times> nat \<times> string) option" where
  "scan_digits [] prev_us acc n = (if prev_us then None else Some (acc, n, []))"
| "scan_digits (c # cs) prev_us acc n =
     (if c = CHR ''_'' then (if prev_us then None else scan_digits cs True acc n)
      else (case hex_digit c of
              Some d \<Rightarrow> scan_digits cs False (16 * acc + d) (Suc n)
            | None \<Rightarrow> (if prev_us then None else Some (acc, n, c # cs))))"

fun strip_sign :: "string \<Rightarrow> int \<times> string" where
  "strip_sign (c # cs) =
     (if c = CHR ''+'' then (1, cs) else if c = CHR ''-'' then (- 1, cs) else (1, c # cs))"
| "strip_sign [] = (1, [])"

fun strip_prefix16 :: "string \<Rightarrow> string" where
  "strip_prefix16 (a # b # cs) =
     (if a = CHR ''0'' \<and> (b = CHR ''x'' \<or> b = CHR ''X'')
      then (case cs of c # cs' \<Rightarrow> (if c = CHR ''_'' then cs' else cs) | [] \<Rightarrow> cs)
      else a # b # cs)"
| "strip_prefix16 cs = cs"

definition int_of_str16 :: "string \<Rightarrow> exn + int" where
  "int_of_str16 s =
     (case strip_sign (dropWhile py_isspace s) of
        (sign, s1) \<Rightarrow>
          (let s2 = strip_prefix16 s1 in
           if s2 \<noteq> [] \<and> hd s2 = CHR ''_'' then Inl ValueError
           else (case scan_digits s2 False 0 0 of
                   None \<Rightarrow> Inl ValueError
                 | Some (v, n, rest) \<Rightarrow>
                     if n = 0 then Inl ValueError
                     else if dropWhile py_isspace rest \<noteq> [] then Inl ValueError
                     else Inr (sign * int v))))"

text \<open>\<^verbatim>\<open>int(x, 16)\<close> on a value of type \<^verbatim>\<open>Any\<close>.\<close>

fun py_int16 :: "json \<Rightarrow> exn + int" where
  "py_int16 (JStr s) = int_of_str16 s"
| "py_int16 _ = Inl TypeError"

text \<open>
  A hexadecimal string, as the specification calls the wire format of an address:
  at least one hexadecimal digit, with or without the prefix \<^verbatim>\<open>0x\<close> or \<^verbatim>\<open>0X\<close> (the
  agent prints a pointer with \<^verbatim>\<open>0x\<close>).  \<open>hex_digits\<close> is the string without the
  prefix and \<open>hex_value\<close> the number the digits denote.
\<close>

definition hex_value :: "string \<Rightarrow> nat" where
  "hex_value ds = foldl (\<lambda>a c. 16 * a + the (hex_digit c)) 0 ds"

definition hex_digits :: "string \<Rightarrow> string" where
  "hex_digits s =
     (case s of
        a # b # ds \<Rightarrow> if a = CHR ''0'' \<and> (b = CHR ''x'' \<or> b = CHR ''X'') then ds else s
      | _ \<Rightarrow> s)"

definition is_hex_string :: "string \<Rightarrow> bool" where
  "is_hex_string s = (hex_digits s \<noteq> [] \<and> list_all (\<lambda>c. hex_digit c \<noteq> None) (hex_digits s))"

subsection \<open>Architecture\<close>

text \<open>
  Modelled from the spec: the enumeration \<^verbatim>\<open>Architecture\<close> is imported from
  \<^verbatim>\<open>process_control\<close>; the code uses its members \<^verbatim>\<open>X86_32\<close> (32-bit x86) and
  \<^verbatim>\<open>X86_64\<close> (64-bit x86).
\<close>

datatype Architecture = X86_32 | X86_64

definition str_to_architecture :: "string \<Rightarrow> exn + Architecture" where
  "str_to_architecture frida_arch =
     (if frida_arch = ''ia32'' then Inr X86_32
      else if frida_arch = ''x64'' then Inr X86_64
      else Inl ValueError)"

section \<open>The remote-procedure channel\<close>

text \<open>
  The agent is an opaque peer with a state of its own (type \<open>'p\<close>): every remote
  procedure takes that state and returns a result, or raises, together with the next
  state.  The record below is \<^verbatim>\<open>self._frida_rpc\<close>, restricted to the procedures the
  operations verified here call, with the result types of the code's annotations.
\<close>

record 'p frida_rpc =
  rpc_find_range_by_address :: "int \<Rightarrow> 'p \<Rightarrow> (channel_exc + dict option) \<times> 'p"
  rpc_enumerate_module_ranges :: "string \<Rightarrow> 'p \<Rightarrow> (channel_exc + dict list) \<times> 'p"
  rpc_enumerate_exported_functions :: "'p \<Rightarrow> (channel_exc + dict list) \<times> 'p"
  rpc_query_memory_protection :: "int \<Rightarrow> 'p \<Rightarrow> (channel_exc + string) \<times> 'p"
  rpc_read_process_memory :: "int \<Rightarrow> int \<Rightarrow> 'p \<Rightarrow> (channel_exc + byte list) \<times> 'p"
  rpc_write_process_memory :: "int \<Rightarrow> int list \<Rightarrow> 'p \<Rightarrow> (channel_exc + unit) \<times> 'p"

text \<open>
  Every remote call is recorded, with its arguments and its outcome, in a trace that
  the operations only ever extend.  The trace is an observation of the run, not a
  field of the Python object; it is what "issues a remote call" refers to.
\<close>

datatype rpc_event =
    FindRangeByAddress int "channel_exc + dict option"
  | EnumerateModuleRanges string "channel_exc + dict list"
  | EnumerateExportedFunctions "channel_exc + dict list"
  | QueryMemoryProtection int "channel_exc + string"
  | ReadProcessMemory int int "channel_exc + byte list"
  | WriteProcessMemory int "int list" "channel_exc + unit"

text \<open>
  The state of a \<^verbatim>\<open>FridaProcessController\<close>: the peer it talks to, the trace, and
  \<^verbatim>\<open>self._exported_functions_cache\<close> (\<open>None\<close> until the first enumeration).
\<close>

record 'p controller =
  agent :: 'p
  rpc_trace :: "rpc_event list"
  exported_functions_cache :: "(int \<rightharpoonup> dict) option"

definition call_find_range_by_address ::
  "'p frida_rpc \<Rightarrow> int \<Rightarrow> 'p controller \<Rightarrow> (channel_exc + dict option) \<times> 'p controller" where
  "call_find_range_by_address rpc address s =
     (case rpc_find_range_by_address rpc address (agent s) of
        (r, p) \<Rightarrow> (r, s\<lparr>agent := p, rpc_trace := rpc_trace s @ [FindRangeByAddress address r]\<rparr>))"


definition call_enumerate_exported_functions ::
  "'p frida_rpc \<Rightarrow> 'p controller \<Rightarrow> (channel_exc + dict list) \<times> 'p controller" where
  "call_enumerate_exported_functions rpc s =
     (case rpc_enumerate_exported_functions rpc (agent s) of
        (r, p) \<Rightarrow> (r, s\<lparr>agent := p, rpc_trace := rpc_trace s @ [EnumerateExportedFunctions r]\<rparr>))"

definition call_query_memory_protection ::
  "'p frida_rpc \<Rightarrow> int \<Rightarrow> 'p controller \<Rightarrow> (channel_exc + string) \<times> 'p controller" where
  "call_query_memory_protection rpc address s =
     (case rpc_query_memory_protection rpc address (agent s) of
        (r, p) \<Rightarrow> (r, s\<lparr>agent := p, rpc_trace := rpc_trace s @ [QueryMemoryProtection address r]\<rparr>))"

definition call_read_process_memory ::
  "'p frida_rpc \<Rightarrow> int \<Rightarrow> int \<Rightarrow> 'p controller \<Rightarrow> (channel_exc + byte list) \<times> 'p controller" where
  "call_read_process_memory rpc address n s =
     (case rpc_read_process_memory rpc address n (agent s) of
        (r, p) \<Rightarrow> (r, s\<lparr>agent := p, rpc_trace := rpc_trace s @ [ReadProcessMemory address n r]\<rparr>))"

definition call_write_process_memory ::
  "'p frida_rpc \<Rightarrow> int \<Rightarrow> int list \<Rightarrow> 'p controller \<Rightarrow> (channel_exc + unit) \<times> 'p controller" where
  "call_write_process_memory rpc address bytes s =
     (case rpc_write_process_memory rpc address bytes (agent s) of
        (r, p) \<Rightarrow> (r, s\<lparr>agent := p, rpc_trace := rpc_trace s @ [WriteProcessMemory address bytes r]\<rparr>))"

text \<open>
  \<^verbatim>\<open>except frida.core.RPCException as e: raise K from e\<close>: a channel-level fault
  becomes the domain error \<open>K\<close> with the fault as its cause; any other exception
  passes the clause unchanged.
\<close>

fun reraise_from :: "(channel_exc \<Rightarrow> exn) \<Rightarrow> channel_exc \<Rightarrow> exn" where
  "reraise_from K (RPCException m) = K (RPCException m)"
| "reraise_from K (OtherChannelError m) = Channel (OtherChannelError m)"

section \<open>Operations of the bridge\<close>

definition MAX_DATA_CHUNK_SIZE :: int where
  "MAX_DATA_CHUNK_SIZE = 64 * 1024 * 1024"

text \<open>
  The loop of \<^verbatim>\<open>read_process_memory\<close>: \<^verbatim>\<open>for offset in range(0, size,
  MAX_DATA_CHUNK_SIZE)\<close>, with \<open>sz\<close> the \<^verbatim>\<open>size\<close> argument, \<open>offset\<close> the next value of the range and \<open>read_data\<close>
  the bytearray so far.  A raising chunk call leaves the loop at once.
\<close>

function read_loop ::
  "'p frida_rpc \<Rightarrow> int \<Rightarrow> int \<Rightarrow> int \<Rightarrow> byte list \<Rightarrow> 'p controller
     \<Rightarrow> (channel_exc + byte list) \<times> 'p controller" where
  "read_loop rpc address sz offset read_data s =
     (if offset < sz then
        (let chunk_size = min MAX_DATA_CHUNK_SIZE (sz - offset) in
         case call_read_process_memory rpc (address + offset) chunk_size s of
           (Inl e, s') \<Rightarrow> (Inl e, s')
         | (Inr chunk, s') \<Rightarrow>
             read_loop rpc address sz (offset + MAX_DATA_CHUNK_SIZE) (read_data @ chunk) s')
      else (Inr read_data, s))"
  by pat_completeness auto
termination
  by (relation "measure (\<lambda>(rpc, address, sz, offset, read_data, s). nat (sz - offset))")
     (auto simp: MAX_DATA_CHUNK_SIZE_def)

declare read_loop.simps [simp del]

definition read_process_memory ::
  "'p frida_rpc \<Rightarrow> int \<Rightarrow> int \<Rightarrow> 'p controller \<Rightarrow> (exn + byte list) \<times> 'p controller" where
  "read_process_memory rpc address sz s =
     (case read_loop rpc address sz 0 [] s of
        (Inl e, s') \<Rightarrow> (Inl (reraise_from ReadProcessMemoryError e), s')
      | (Inr read_data, s') \<Rightarrow> (Inr read_data, s'))"

definition query_memory_protection ::
  "'p frida_rpc \<Rightarrow> int \<Rightarrow> 'p controller \<Rightarrow> (exn + string) \<times> 'p controller" where
  "query_memory_protection rpc address s =
     (case call_query_memory_protection rpc address s of
        (Inl e, s') \<Rightarrow> (Inl (reraise_from QueryProcessMemoryError e), s')
      | (Inr protection, s') \<Rightarrow> (Inr protection, s'))"

definition write_process_memory ::
  "'p frida_rpc \<Rightarrow> int \<Rightarrow> int list \<Rightarrow> 'p controller \<Rightarrow> (exn + unit) \<times> 'p controller" where
  "write_process_memory rpc address bytes s =
     (case call_write_process_memory rpc address bytes s of
        (Inl e, s') \<Rightarrow> (Inl (reraise_from WriteProcessMemoryError e), s')
      | (Inr u, s') \<Rightarrow> (Inr (), s'))"

subsection \<open>Memory ranges\<close>

text \<open>
  Modelled from the spec: the class \<^verbatim>\<open>MemoryRange\<close> is imported from
  \<^verbatim>\<open>process_control\<close>; it has a base address, a size, a protection and optional
  data.  The code builds it with \<^verbatim>\<open>MemoryRange(base=, size=, protection=, data=)\<close>,
  passing \<^verbatim>\<open>r["size"]\<close> and \<^verbatim>\<open>r["protection"]\<close> on as they arrived.  The fields
  carry the prefix \<open>mr_\<close> because \<open>size\<close> is a constant of HOL.
\<close>

record MemoryRange =
  mr_base :: int
  mr_size :: json
  mr_protection :: json
  mr_data :: "byte list option"

text \<open>
  A value of type \<^verbatim>\<open>Any\<close> used where Python needs an integer (the \<^verbatim>\<open>size\<close> handed
  to \<^verbatim>\<open>range\<close>): an integer is itself, a boolean is 0 or 1, anything else raises
  \<^verbatim>\<open>TypeError\<close>.
\<close>

fun py_index :: "json \<Rightarrow> exn + int" where
  "py_index (JNum n) = Inr n"
| "py_index (JBool b) = Inr (if b then 1 else 0)"
| "py_index _ = Inl TypeError"

definition frida_range_to_mem_range ::
  "'p frida_rpc \<Rightarrow> dict \<Rightarrow> bool \<Rightarrow> 'p controller \<Rightarrow> (exn + MemoryRange) \<times> 'p controller" where
  "frida_range_to_mem_range rpc r with_data s =
     (case getitem r ''base'' of
        Inl e \<Rightarrow> (Inl e, s)
      | Inr b \<Rightarrow>
     (case py_int16 b of
        Inl e \<Rightarrow> (Inl e, s)
      | Inr base \<Rightarrow>
     (case getitem r ''size'' of
        Inl e \<Rightarrow> (Inl e, s)
      | Inr sz \<Rightarrow>
     (case (if with_data
            then (case py_index sz of
                    Inl e \<Rightarrow> (Inl e, s)
                  | Inr n \<Rightarrow>
                      (case read_process_memory rpc base n s of
                         (Inl e, s') \<Rightarrow> (Inl e, s')
                       | (Inr bytes, s') \<Rightarrow> (Inr (Some bytes), s')))
            else (Inr None, s)) of
        (Inl e, s') \<Rightarrow> (Inl e, s')
      | (Inr data, s') \<Rightarrow>
     (case getitem r ''protection'' of
        Inl e \<Rightarrow> (Inl e, s')
      | Inr prot \<Rightarrow>
          (Inr \<lparr>mr_base = base, mr_size = sz, mr_protection = prot, mr_data = data\<rparr>, s'))))))"

definition find_range_by_address ::
  "'p frida_rpc \<Rightarrow> int \<Rightarrow> bool \<Rightarrow> 'p controller
     \<Rightarrow> (exn + MemoryRange option) \<times> 'p controller" where
  "find_range_by_address rpc address include_data s =
     (case call_find_range_by_address rpc address s of
        (Inl e, s') \<Rightarrow> (Inl (Channel e), s')
      | (Inr None, s') \<Rightarrow> (Inr None, s')
      | (Inr (Some r), s') \<Rightarrow>
          (case frida_range_to_mem_range rpc r include_data s' of
             (Inl e, s'') \<Rightarrow> (Inl e, s'')
           | (Inr m, s'') \<Rightarrow> (Inr (Some m), s'')))"



subsection \<open>Exported functions\<close>

text \<open>
  The dictionary comprehension \<^verbatim>\<open>{int(e["address"], 16): e for e in value}\<close>: the
  records are visited in order and each is stored under its key, replacing what was
  stored there.
\<close>

fun exports_dict_of :: "dict list \<Rightarrow> (int \<rightharpoonup> dict) \<Rightarrow> exn + (int \<rightharpoonup> dict)" where
  "exports_dict_of [] acc = Inr acc"
| "exports_dict_of (e # es) acc =
     (case getitem e ''address'' of
        Inl x \<Rightarrow> Inl x
      | Inr a \<Rightarrow>
          (case py_int16 a of
             Inl x \<Rightarrow> Inl x
           | Inr k \<Rightarrow> exports_dict_of es (acc(k \<mapsto> e))))"

definition enumerate_exported_functions ::
  "'p frida_rpc \<Rightarrow> bool \<Rightarrow> 'p controller \<Rightarrow> (exn + (int \<rightharpoonup> dict)) \<times> 'p controller" where
  "enumerate_exported_functions rpc update_cache s =
     (if exported_functions_cache s = None \<or> update_cache then
        (case call_enumerate_exported_functions rpc s of
           (Inl e, s') \<Rightarrow> (Inl (Channel e), s')
         | (Inr records, s') \<Rightarrow>
             (case exports_dict_of records Map.empty of
                Inl x \<Rightarrow> (Inl x, s')
              | Inr exports_dict \<Rightarrow>
                  (Inr exports_dict, s'\<lparr>exported_functions_cache := Some exports_dict\<rparr>)))
      else (Inr (the (exported_functions_cache s)), s))"

section \<open>The event handler\<close>

text \<open>
  What \<^verbatim>\<open>_frida_callback\<close> can be observed to do: write a record to the log with
  \<^verbatim>\<open>LOG.error\<close>, invoke the notification callback, or (it has no handle on the
  channel, and the trace shows that it never does) issue a remote call.
\<close>

datatype event =
    Rpc rpc_event
  | LogError json
  | NotifyOepReached int int

text \<open>
  The handler runs on the dispatch thread, in a world made of the trace of what it
  did and of the state \<open>'c\<close> of the caller who supplied the callback.  The callback
  \<^verbatim>\<open>notify_oep_reached\<close> is any function on that state that returns or raises.
\<close>

record 'c handler_world =
  hw_trace :: "event list"
  hw_client :: 'c

definition log_error :: "json \<Rightarrow> 'c handler_world \<Rightarrow> 'c handler_world" where
  "log_error x w = w\<lparr>hw_trace := hw_trace w @ [LogError x]\<rparr>"

definition call_notify ::
  "(int \<Rightarrow> int \<Rightarrow> 'c \<Rightarrow> (exn + unit) \<times> 'c) \<Rightarrow> int \<Rightarrow> int \<Rightarrow> 'c handler_world
     \<Rightarrow> (exn + unit) \<times> 'c handler_world" where
  "call_notify notify_oep_reached base oep w =
     (case notify_oep_reached base oep (hw_client w) of
        (r, c) \<Rightarrow> (r, w\<lparr>hw_trace := hw_trace w @ [NotifyOepReached base oep], hw_client := c\<rparr>))"

text \<open>\<^verbatim>\<open>payload.get('event', '')\<close>: only a dictionary has the method \<^verbatim>\<open>get\<close>.\<close>

fun payload_get :: "json \<Rightarrow> string \<Rightarrow> json \<Rightarrow> exn + json" where
  "payload_get (JObj d) k dflt = Inr (dict_get d k dflt)"
| "payload_get _ k dflt = Inl AttributeError"

text \<open>
  \<^verbatim>\<open>payload['BASE']\<close>: reached only after \<^verbatim>\<open>payload.get\<close> has returned, so the
  payload is a dictionary there.
\<close>

fun payload_getitem :: "json \<Rightarrow> string \<Rightarrow> exn + json" where
  "payload_getitem (JObj d) k = getitem d k"
| "payload_getitem _ k = Inl TypeError"

definition frida_callback ::
  "(int \<Rightarrow> int \<Rightarrow> 'c \<Rightarrow> (exn + unit) \<times> 'c) \<Rightarrow> dict \<Rightarrow> 'd \<Rightarrow> 'c handler_world
     \<Rightarrow> (exn + unit) \<times> 'c handler_world" where
  "frida_callback notify_oep_reached message data w =
     (case getitem message ''type'' of
        Inl e \<Rightarrow> (Inl e, w)
      | Inr msg_type \<Rightarrow>
          if msg_type = JStr ''error'' then
            (let w1 = log_error (JObj message) w in
             case getitem message ''stack'' of
               Inl e \<Rightarrow> (Inl e, w1)
             | Inr stack \<Rightarrow> (Inr (), log_error stack w1))
          else if msg_type = JStr ''send'' then
            (case getitem message ''payload'' of
               Inl e \<Rightarrow> (Inl e, w)
             | Inr payload \<Rightarrow>
            (case payload_get payload ''event'' (JStr '''') of
               Inl e \<Rightarrow> (Inl e, w)
             | Inr event \<Rightarrow>
                 if event = JStr ''oep_reached'' then
                   (case payload_getitem payload ''BASE'' of
                      Inl e \<Rightarrow> (Inl e, w)
                    | Inr b \<Rightarrow>
                   (case py_int16 b of
                      Inl e \<Rightarrow> (Inl e, w)
                    | Inr base \<Rightarrow>
                   (case payload_getitem payload ''OEP'' of
                      Inl e \<Rightarrow> (Inl e, w)
                    | Inr p \<Rightarrow>
                   (case py_int16 p of
                      Inl e \<Rightarrow> (Inl e, w)
                    | Inr oep \<Rightarrow> call_notify notify_oep_reached base oep w))))
                 else (Inl (NotImplementedError ''Unknown message received''), w)))
          else (Inl (NotImplementedError ''Unknown message received''), w))"

section \<open>The vocabulary of the specification\<close>

text \<open>
  The definitions of this section follow the words of the specification, not the
  code; the theorems compare the code with them.  \<open>chunk_count\<close> is
  \<^verbatim>\<open>ceil(size / CHUNK)\<close>, and \<open>chunk_events\<close> lists the single-chunk reads of a bulk
  read that returned the replies \<open>chunks\<close>: the read of index \<open>k\<close> is at offset
  \<open>k * CHUNK\<close> and asks for \<open>min(CHUNK, size - offset)\<close> bytes at
  \<open>address + offset\<close>.
\<close>

definition chunk_count :: "int \<Rightarrow> nat" where
  "chunk_count sz = nat \<lceil>real_of_int sz / real_of_int MAX_DATA_CHUNK_SIZE\<rceil>"

definition chunk_event :: "int \<Rightarrow> int \<Rightarrow> nat \<Rightarrow> channel_exc + byte list \<Rightarrow> rpc_event" where
  "chunk_event address sz k reply =
     ReadProcessMemory (address + int k * MAX_DATA_CHUNK_SIZE)
       (min MAX_DATA_CHUNK_SIZE (sz - int k * MAX_DATA_CHUNK_SIZE)) reply"

definition chunk_events :: "int \<Rightarrow> int \<Rightarrow> byte list list \<Rightarrow> rpc_event list" where
  "chunk_events address sz chunks =
     map (\<lambda>(k, chunk). chunk_event address sz k (Inr chunk)) (enumerate 0 chunks)"

text \<open>The key of an export record: its \<^verbatim>\<open>address\<close> field parsed as hexadecimal.\<close>

definition export_key :: "dict \<Rightarrow> exn + int" where
  "export_key e = (case getitem e ''address'' of Inl x \<Rightarrow> Inl x | Inr a \<Rightarrow> py_int16 a)"

text \<open>The unsigned integer that a string in the wire format denotes.\<close>

definition hex_address :: "string \<Rightarrow> int" where
  "hex_address s = int (hex_value (hex_digits s))"








section \<open>A test peer\<close>

text \<open>
  A small agent on which the theorems below are exercised.  Its state counts the
  remote calls it has served.  It knows one range of two bytes at \<^verbatim>\<open>0x1000\<close>; its
  second remote call, if that is a read, faults; its export list has two records
  with the same address.
\<close>

definition demo_range :: dict where
  "demo_range = [(''base'', JStr ''0x1000''), (''size'', JNum 2), (''protection'', JStr ''r-x'')]"

definition demo_exports :: "nat \<Rightarrow> dict list" where
  "demo_exports p =
     [[(''address'', JStr ''0x10''), (''name'', JStr ''open'')],
      [(''address'', JStr ''0x20''), (''name'', JStr ''read'')],
      [(''address'', JStr ''0x10''), (''name'', JStr (if p = 0 then ''open64'' else ''openat''))]]"

definition demo_rpc :: "nat frida_rpc" where
  "demo_rpc = \<lparr>
     rpc_find_range_by_address =
       (\<lambda>address p. (if address = 0 then Inl (OtherChannelError ''script destroyed'')
                      else if 4096 \<le> address \<and> address < 4098 then Inr (Some demo_range)
                      else Inr None, Suc p)),
     rpc_enumerate_module_ranges =
       (\<lambda>module_name p. (if module_name = ''a.exe'' then Inr [demo_range, demo_range] else Inr [], Suc p)),
     rpc_enumerate_exported_functions = (\<lambda>p. (Inr (demo_exports p), Suc p)),
     rpc_query_memory_protection =
       (\<lambda>address p. (if address = 4096 then Inr ''r-x'' else Inl (RPCException ''access violation''),
                      Suc p)),
     rpc_read_process_memory =
       (\<lambda>address n p. (if p = 1 then Inl (RPCException ''access violation'')
                        else Inr [word_of_nat p], Suc p)),
     rpc_write_process_memory =
       (\<lambda>address bytes p. (if address = 4096 then Inr () else Inl (RPCException ''access violation''),
                            Suc p))\<rparr>"


definition demo_controller :: "nat \<Rightarrow> nat controller" where
  "demo_controller p = \<lparr>agent = p, rpc_trace = [], exported_functions_cache = None\<rparr>"

text \<open>
  A caller of the event handler: its callback appends the pair it is given to a list
  and returns.  \<open>demo_oep_message\<close> is the well-formed message of the
  specification's example.
\<close>

definition demo_notify :: "int \<Rightarrow> int \<Rightarrow> (int \<times> int) list \<Rightarrow> (exn + unit) \<times> (int \<times> int) list" where
  "demo_notify base oep seen = (Inr (), seen @ [(base, oep)])"

definition demo_world :: "(int \<times> int) list handler_world" where
  "demo_world = \<lparr>hw_trace = [], hw_client = []\<rparr>"

definition demo_oep_message :: dict where
  "demo_oep_message =
     [(''type'', JStr ''send''),
      (''payload'', JObj [(''event'', JStr ''oep_reached''),
                          (''BASE'', JStr ''0x1000''), (''OEP'', JStr ''0x1234'')])]"

lemmas demo_simps = demo_rpc_def demo_controller_def demo_range_def demo_exports_def
  call_read_process_memory_def MAX_DATA_CHUNK_SIZE_def read_process_memory_def read_loop.simps Let_def

section \<open>Architecture translation\<close>

text \<open>
  C4.  The architecture translation maps \<^verbatim>\<open>"ia32"\<close> to the 32-bit x86 value and
  \<^verbatim>\<open>"x64"\<close> to the 64-bit x86 value, which differ, and nothing else to a value: on
  every other string it raises, and what it raises is \<^verbatim>\<open>ValueError\<close>, which is none
  of \<^verbatim>\<open>QueryProcessMemoryError\<close>, \<^verbatim>\<open>ReadProcessMemoryError\<close> and
  \<^verbatim>\<open>WriteProcessMemoryError\<close>.
\<close>

theorem str_to_architecture_total:
  "(str_to_architecture s = Inr X86_32 \<longleftrightarrow> s = ''ia32'') \<and>
   (str_to_architecture s = Inr X86_64 \<longleftrightarrow> s = ''x64'') \<and>
   X86_32 \<noteq> X86_64 \<and>
   ((\<exists>e. str_to_architecture s = Inl e) \<longleftrightarrow> s \<noteq> ''ia32'' \<and> s \<noteq> ''x64'') \<and>
   (\<forall>e. str_to_architecture s = Inl e \<longrightarrow>
      e = ValueError \<and>
      (\<forall>c. e \<noteq> QueryProcessMemoryError c \<and> e \<noteq> ReadProcessMemoryError c \<and>
           e \<noteq> WriteProcessMemoryError c))"
  by (auto simp: str_to_architecture_def)

theorem str_to_architecture_total_witness:
  "str_to_architecture ''arm64'' = Inl ValueError \<and>
   str_to_architecture ''ia32'' = Inr X86_32 \<and>
   str_to_architecture ''x64'' = Inr X86_64 \<and>
   ValueError \<noteq> ReadProcessMemoryError (RPCException ''fault'')"
  using str_to_architecture_total [of "''arm64''"] str_to_architecture_total [of "''ia32''"]
    str_to_architecture_total [of "''x64''"]
  by (simp add: str_to_architecture_def)

section \<open>Hexadecimal addresses\<close>


lemma hex_digit_not_us: "hex_digit c \<noteq> None \<Longrightarrow> c \<noteq> CHR ''_''"
  by (auto simp: hex_digit_def)

lemma hex_digit_not_space: "hex_digit c \<noteq> None \<Longrightarrow> \<not> py_isspace c"
  by (auto simp: hex_digit_def py_isspace_def Let_def split: if_splits)

lemma scan_digits_all_hex:
  "list_all (\<lambda>c. hex_digit c \<noteq> None) ds \<Longrightarrow>
   scan_digits ds False acc n =
     Some (foldl (\<lambda>a c. 16 * a + the (hex_digit c)) acc ds, n + length ds, [])"
proof (induction ds arbitrary: acc n)
  case Nil
  then show ?case by simp
next
  case (Cons c cs)
  then obtain d where d: "hex_digit c = Some d" by auto
  with Cons show ?case
    using hex_digit_not_us [of c] by simp
qed

lemma hex_digit_not_sign: "hex_digit c \<noteq> None \<Longrightarrow> c \<noteq> CHR ''+'' \<and> c \<noteq> CHR ''-''"
  by (auto simp: hex_digit_def)

lemma int_of_str16_digits:
  assumes ne: "ds \<noteq> []" and all: "list_all (\<lambda>c. hex_digit c \<noteq> None) ds"
    and s: "strip_prefix16 s = ds" and first: "s \<noteq> []" "hex_digit (hd s) \<noteq> None"
  shows "int_of_str16 s = Inr (int (hex_value ds))"
proof -
  from first obtain a as where sa: "s = a # as" and a: "hex_digit a \<noteq> None"
    by (cases s) auto
  from ne obtain d ds' where ds: "ds = d # ds'" by (cases ds) auto
  have d_us: "d \<noteq> CHR ''_''" using all ds hex_digit_not_us [of d] by simp
  have drop: "dropWhile py_isspace s = s"
    using hex_digit_not_space [OF a] by (simp add: sa)
  have sign: "strip_sign s = (1, s)"
    using hex_digit_not_sign [OF a] by (simp add: sa)
  have scan: "scan_digits ds False 0 0 =
      Some (foldl (\<lambda>a c. 16 * a + the (hex_digit c)) 0 ds, 0 + length ds, [])"
    by (rule scan_digits_all_hex [OF all])
  have hd_us: "hd ds \<noteq> CHR ''_''" using d_us ds by simp
  show ?thesis
    using hd_us ne by (simp add: int_of_str16_def drop sign s scan hex_value_def)
qed

lemma int_of_str16_hex_string:
  assumes "is_hex_string s"
  shows "int_of_str16 s = Inr (hex_address s)"
proof -
  from assms have ne: "hex_digits s \<noteq> []"
    and all: "list_all (\<lambda>c. hex_digit c \<noteq> None) (hex_digits s)"
    by (simp_all add: is_hex_string_def)
  have zero: "hex_digit CHR ''0'' \<noteq> None" by (simp add: hex_digit_def)
  have "strip_prefix16 s = hex_digits s \<and> s \<noteq> [] \<and> hex_digit (hd s) \<noteq> None"
  proof (cases s)
    case Nil
    with ne show ?thesis by (simp add: hex_digits_def)
  next
    case (Cons a as)
    show ?thesis
    proof (cases as)
      case Nil
      with Cons all show ?thesis by (simp add: hex_digits_def)
    next
      case (Cons b bs)
      note s = \<open>s = a # as\<close> Cons
      show ?thesis
      proof (cases "a = CHR ''0'' \<and> (b = CHR ''x'' \<or> b = CHR ''X'')")
        case True
        with s have hd: "hex_digits s = bs" by (auto simp: hex_digits_def)
        with ne obtain c cs where bs: "bs = c # cs" by (cases bs) auto
        with all hd have "c \<noteq> CHR ''_''" using hex_digit_not_us [of c] by simp
        with True s bs hd zero show ?thesis by auto
      next
        case False
        with s have hd: "hex_digits s = s" by (auto simp: hex_digits_def)
        with all s have "hex_digit a \<noteq> None" by simp
        with False s hd show ?thesis by auto
      qed
    qed
  qed
  with int_of_str16_digits [OF ne all] show ?thesis
    by (simp add: hex_address_def)
qed

lemma hex_address_nonneg: "0 \<le> hex_address s"
  by (simp add: hex_address_def)



text \<open>
  The separators U+001C to U+001F are not whitespace to \<^verbatim>\<open>int\<close>, the no-break space
  and the next-line character are: \<^verbatim>\<open>int('\x1c10', 16)\<close> raises, \<^verbatim>\<open>int('\xa010', 16)\<close>
  and \<^verbatim>\<open>int('10\x85', 16)\<close> are 16.
\<close>

lemma int_of_str16_blanks:
  "int_of_str16 [CHR 0x1C, CHR ''1'', CHR ''0''] = Inl ValueError"
  "int_of_str16 [CHR 0xA0, CHR ''1'', CHR ''0''] = Inr 16"
  "int_of_str16 [CHR ''1'', CHR ''0'', CHR 0x85] = Inr 16"
  "int_of_str16 '' -0x_1f_f  '' = Inr (- 511)"
  "int_of_str16 ''0x'' = Inl ValueError"
  by (simp_all add: int_of_str16_def py_isspace_def hex_digit_def)

section \<open>Chunked bulk transfer\<close>

lemma MAX_pos: "0 < MAX_DATA_CHUNK_SIZE" by (simp add: MAX_DATA_CHUNK_SIZE_def)

lemma chunk_count_div: "chunk_count sz = nat (- ((- sz) div MAX_DATA_CHUNK_SIZE))"
  unfolding chunk_count_def by (simp add: ceiling_divide_eq_div)

lemma chunk_count_nonpos: "sz \<le> 0 \<Longrightarrow> chunk_count sz = 0"
proof -
  assume "sz \<le> 0"
  then have "0 \<le> (- sz) div MAX_DATA_CHUNK_SIZE"
    using MAX_pos by (simp add: pos_imp_zdiv_nonneg_iff)
  then show ?thesis by (simp add: chunk_count_div)
qed

lemma chunk_count_step:
  assumes "0 < sz"
  shows "chunk_count sz = Suc (chunk_count (sz - MAX_DATA_CHUNK_SIZE))"
proof -
  have eq: "(- (sz - MAX_DATA_CHUNK_SIZE)) div MAX_DATA_CHUNK_SIZE = (- sz) div MAX_DATA_CHUNK_SIZE + 1"
  proof -
    have "- (sz - MAX_DATA_CHUNK_SIZE) = - sz + MAX_DATA_CHUNK_SIZE" by simp
    then show ?thesis using MAX_pos by (simp only: div_add_self2)
  qed
  have neg: "(- sz) div MAX_DATA_CHUNK_SIZE < 0"
    using assms MAX_pos by (simp add: pos_imp_zdiv_neg_iff)
  show ?thesis
    unfolding chunk_count_div eq using neg by simp
qed

lemma chunk_event_Suc:
  "chunk_event a sz (Suc k) r = chunk_event (a + MAX_DATA_CHUNK_SIZE) (sz - MAX_DATA_CHUNK_SIZE) k r"
  by (simp add: chunk_event_def algebra_simps)

lemma chunk_events_Nil: "chunk_events a sz [] = []"
  by (simp add: chunk_events_def)

lemma chunk_events_Cons:
  "chunk_events a sz (c # cs) =
     chunk_event a sz 0 (Inr c) # chunk_events (a + MAX_DATA_CHUNK_SIZE) (sz - MAX_DATA_CHUNK_SIZE) cs"
  by (simp add: chunk_events_def enumerate_Suc_eq [of 0] chunk_event_Suc split_def del: One_nat_def)

lemma chunk_event_0:
  "chunk_event a sz 0 r = ReadProcessMemory a (min MAX_DATA_CHUNK_SIZE sz) r"
  by (simp add: chunk_event_def)


lemma call_read_process_memory_trace:
  "call_read_process_memory rpc a n s = (r, s1) \<Longrightarrow>
     rpc_trace s1 = rpc_trace s @ [ReadProcessMemory a n r] \<and>
     exported_functions_cache s1 = exported_functions_cache s"
  by (auto simp: call_read_process_memory_def split: prod.splits)

lemma read_loop_shape:
  "read_loop rpc a sz off acc s = (r, s') \<Longrightarrow>
   \<exists>chunks.
     rpc_trace s' = rpc_trace s @ chunk_events (a + off) (sz - off) chunks @
       (case r of Inr buf \<Rightarrow> []
        | Inl e \<Rightarrow> [chunk_event (a + off) (sz - off) (length chunks) (Inl e)]) \<and>
     (case r of Inr buf \<Rightarrow> buf = acc @ concat chunks \<and> length chunks = chunk_count (sz - off)
      | Inl e \<Rightarrow> length chunks < chunk_count (sz - off)) \<and>
     exported_functions_cache s' = exported_functions_cache s"
proof (induction rpc a sz off acc s arbitrary: r s' rule: read_loop.induct)
  case (1 rpc a sz off acc s)
  show ?case
  proof (cases "off < sz")
    case False
    with "1.prems" have "r = Inr acc" "s' = s" by (simp_all add: read_loop.simps)
    moreover have "chunk_count (sz - off) = 0" using False by (simp add: chunk_count_nonpos)
    ultimately show ?thesis
      by (intro exI [of _ "[]"]) (simp add: chunk_events_Nil)
  next
    case True
    obtain reply s1 where call:
      "call_read_process_memory rpc (a + off) (min MAX_DATA_CHUNK_SIZE (sz - off)) s = (reply, s1)"
      by (cases "call_read_process_memory rpc (a + off) (min MAX_DATA_CHUNK_SIZE (sz - off)) s")
    note tr = call_read_process_memory_trace [OF call]
    have cnt: "chunk_count (sz - off) = Suc (chunk_count (sz - off - MAX_DATA_CHUNK_SIZE))"
      using True by (simp add: chunk_count_step)
    show ?thesis
    proof (cases reply)
      case (Inl e)
      with "1.prems" True call have "r = Inl e" "s' = s1"
        by (simp_all add: read_loop.simps Let_def)
      then show ?thesis
        using tr cnt Inl by (intro exI [of _ "[]"]) (simp add: chunk_events_Nil chunk_event_0)
    next
      case (Inr chunk)
      with "1.prems" True call
      have rec: "read_loop rpc a sz (off + MAX_DATA_CHUNK_SIZE) (acc @ chunk) s1 = (r, s')"
        by (simp add: read_loop.simps [of rpc a sz off] Let_def)
      from "1.IH" [OF True refl call [symmetric] Inr rec]
      obtain chunks where
        t: "rpc_trace s' = rpc_trace s1 @
              chunk_events (a + (off + MAX_DATA_CHUNK_SIZE)) (sz - (off + MAX_DATA_CHUNK_SIZE)) chunks @
              (case r of Inr buf \<Rightarrow> []
               | Inl e \<Rightarrow> [chunk_event (a + (off + MAX_DATA_CHUNK_SIZE))
                              (sz - (off + MAX_DATA_CHUNK_SIZE)) (length chunks) (Inl e)])"
        and b: "(case r of Inr buf \<Rightarrow> buf = (acc @ chunk) @ concat chunks \<and>
                    length chunks = chunk_count (sz - (off + MAX_DATA_CHUNK_SIZE))
                | Inl e \<Rightarrow> length chunks < chunk_count (sz - (off + MAX_DATA_CHUNK_SIZE)))"
        and c: "exported_functions_cache s' = exported_functions_cache s1"
        by auto
      have shift: "a + (off + MAX_DATA_CHUNK_SIZE) = a + off + MAX_DATA_CHUNK_SIZE"
        "sz - (off + MAX_DATA_CHUNK_SIZE) = sz - off - MAX_DATA_CHUNK_SIZE" by simp_all
      show ?thesis
        using t b c tr cnt Inr unfolding shift
        by (intro exI [of _ "chunk # chunks"])
           (cases r; simp add: chunk_events_Cons chunk_event_0 chunk_event_Suc)
    qed
  qed
qed


lemma read_process_memory_shape:
  assumes "read_process_memory rpc address sz s = (res, s')"
  shows "\<exists>chunks.
     rpc_trace s' = rpc_trace s @ chunk_events address sz chunks @
       (case res of Inr buf \<Rightarrow> []
        | Inl x \<Rightarrow> (case x of
            ReadProcessMemoryError e \<Rightarrow> [chunk_event address sz (length chunks) (Inl e)]
          | Channel e \<Rightarrow> [chunk_event address sz (length chunks) (Inl e)]
          | _ \<Rightarrow> [])) \<and>
     (case res of Inr buf \<Rightarrow> buf = concat chunks \<and> length chunks = chunk_count sz
      | Inl x \<Rightarrow> length chunks < chunk_count sz \<and>
          ((\<exists>m. x = ReadProcessMemoryError (RPCException m)) \<or>
           (\<exists>m. x = Channel (OtherChannelError m)))) \<and>
     exported_functions_cache s' = exported_functions_cache s"
proof -
  obtain r where loop: "read_loop rpc address sz 0 [] s = (r, s')"
    and res: "res = (case r of Inl e \<Rightarrow> Inl (reraise_from ReadProcessMemoryError e) | Inr b \<Rightarrow> Inr b)"
    using assms by (auto simp: read_process_memory_def split: prod.splits sum.splits)
  show ?thesis
  proof (cases r)
    case (Inr buf)
    with read_loop_shape [OF loop] obtain chunks where
      "rpc_trace s' = rpc_trace s @ chunk_events address sz chunks"
      "buf = concat chunks" "length chunks = chunk_count sz"
      "exported_functions_cache s' = exported_functions_cache s"
      by auto
    with res Inr show ?thesis by (intro exI [of _ chunks]) simp
  next
    case (Inl e)
    with read_loop_shape [OF loop] obtain chunks where
      "rpc_trace s' = rpc_trace s @ chunk_events address sz chunks @
         [chunk_event address sz (length chunks) (Inl e)]"
      "length chunks < chunk_count sz"
      "exported_functions_cache s' = exported_functions_cache s"
      by auto
    with res Inl show ?thesis
      by (intro exI [of _ chunks]) (cases e; simp)
  qed
qed


lemma chunk_events_no_fault: "ReadProcessMemory a n (Inl e) \<notin> set (chunk_events address sz chunks)"
  by (auto simp: chunk_events_def chunk_event_def)

text \<open>
  C2.  If a chunk call of a bulk read faults with an \<^verbatim>\<open>RPCException\<close>, the bulk read
  raises \<^verbatim>\<open>ReadProcessMemoryError\<close> with that fault as its cause, so no buffer is
  returned; the faulting call is the last remote call of the read, preceded only by
  the successful chunk reads at the lower offsets: the chunk is not asked for again
  and no further chunk is read.
\<close>

theorem read_process_memory_fault:
  assumes run: "read_process_memory rpc address sz s = (res, s')"
    and tr: "rpc_trace s' = rpc_trace s @ evs"
    and fault: "ReadProcessMemory a n (Inl (RPCException m)) \<in> set evs"
  shows "res = Inl (ReadProcessMemoryError (RPCException m)) \<and>
    (\<exists>chunks. evs = chunk_events address sz chunks @ [ReadProcessMemory a n (Inl (RPCException m))] \<and>
       length chunks < chunk_count sz \<and>
       a = address + int (length chunks) * MAX_DATA_CHUNK_SIZE \<and>
       n = min MAX_DATA_CHUNK_SIZE (sz - int (length chunks) * MAX_DATA_CHUNK_SIZE))"
proof -
  from read_process_memory_shape [OF run] obtain chunks where
    t: "rpc_trace s' = rpc_trace s @ chunk_events address sz chunks @
       (case res of Inr buf \<Rightarrow> []
        | Inl x \<Rightarrow> (case x of
            ReadProcessMemoryError e \<Rightarrow> [chunk_event address sz (length chunks) (Inl e)]
          | Channel e \<Rightarrow> [chunk_event address sz (length chunks) (Inl e)]
          | _ \<Rightarrow> []))"
    and b: "(case res of Inr buf \<Rightarrow> buf = concat chunks \<and> length chunks = chunk_count sz
      | Inl x \<Rightarrow> length chunks < chunk_count sz \<and>
          ((\<exists>m. x = ReadProcessMemoryError (RPCException m)) \<or>
           (\<exists>m. x = Channel (OtherChannelError m))))"
    by auto
  from t tr have evs: "evs = chunk_events address sz chunks @
       (case res of Inr buf \<Rightarrow> []
        | Inl x \<Rightarrow> (case x of
            ReadProcessMemoryError e \<Rightarrow> [chunk_event address sz (length chunks) (Inl e)]
          | Channel e \<Rightarrow> [chunk_event address sz (length chunks) (Inl e)]
          | _ \<Rightarrow> []))"
    by simp
  show ?thesis
  proof (cases res)
    case (Inr buf)
    with evs fault chunk_events_no_fault show ?thesis by auto
  next
    case (Inl x)
    from b Inl consider m' where "x = ReadProcessMemoryError (RPCException m')"
      | m' where "x = Channel (OtherChannelError m')" by auto
    then show ?thesis
    proof cases
      case 1
      with evs Inl fault chunk_events_no_fault [of a n "RPCException m" address sz chunks] b
      show ?thesis
        by (intro conjI exI [of _ chunks]) (auto simp: chunk_event_def)
    next
      case 2
      with evs Inl fault chunk_events_no_fault [of a n "RPCException m" address sz chunks]
      show ?thesis by (auto simp: chunk_event_def)
    qed
  qed
qed



theorem read_process_memory_fault_witness:
  "read_process_memory demo_rpc 4096 67108865 (demo_controller 0) =
     (Inl (ReadProcessMemoryError (RPCException ''access violation'')),
      \<lparr>agent = 2,
       rpc_trace = [ReadProcessMemory 4096 67108864 (Inr [0]),
                    ReadProcessMemory 67112960 1 (Inl (RPCException ''access violation''))],
       exported_functions_cache = None\<rparr>) \<and>
   (\<exists>chunks.
      [ReadProcessMemory 4096 67108864 (Inr [0]),
       ReadProcessMemory 67112960 1 (Inl (RPCException ''access violation''))] =
        chunk_events 4096 67108865 chunks @
          [ReadProcessMemory 67112960 1 (Inl (RPCException ''access violation''))] \<and>
      length chunks < chunk_count 67108865)"
proof -
  have run: "read_process_memory demo_rpc 4096 67108865 (demo_controller 0) =
     (Inl (ReadProcessMemoryError (RPCException ''access violation'')),
      \<lparr>agent = 2,
       rpc_trace = [ReadProcessMemory 4096 67108864 (Inr [0]),
                    ReadProcessMemory 67112960 1 (Inl (RPCException ''access violation''))],
       exported_functions_cache = None\<rparr>)"
    by (simp add: demo_simps)
  have tr: "rpc_trace \<lparr>agent = 2,
       rpc_trace = [ReadProcessMemory 4096 67108864 (Inr [0]),
                    ReadProcessMemory 67112960 1 (Inl (RPCException ''access violation''))],
       exported_functions_cache = None\<rparr> =
     rpc_trace (demo_controller 0) @
       [ReadProcessMemory 4096 67108864 (Inr [0]),
        ReadProcessMemory 67112960 1 (Inl (RPCException ''access violation''))]"
    by (simp add: demo_controller_def)
  have mem: "ReadProcessMemory 67112960 1 (Inl (RPCException ''access violation'')) \<in>
     set [ReadProcessMemory 4096 67108864 (Inr [0]),
          ReadProcessMemory 67112960 1 (Inl (RPCException ''access violation''))]"
    by simp
  from read_process_memory_fault [OF run tr mem] show ?thesis
    using run by blast
qed

section \<open>Protection queries and writes\<close>

text \<open>
  C9.  \<^verbatim>\<open>query_memory_protection\<close> raises \<^verbatim>\<open>QueryProcessMemoryError\<close>, and
  \<^verbatim>\<open>write_process_memory\<close> raises \<^verbatim>\<open>WriteProcessMemoryError\<close>, exactly when the one
  remote call they issue faults with an \<^verbatim>\<open>RPCException\<close>, and the error carries that
  fault as its cause.  When the remote call returns, the query returns the channel's
  protection string unchanged and the write returns nothing and raises nothing.
\<close>

lemma reraise_from_cases:
  "reraise_from K e = (case e of RPCException m \<Rightarrow> K e | OtherChannelError m \<Rightarrow> Channel e)"
  by (cases e) simp_all

theorem query_write_error_translation:
  assumes q: "rpc_query_memory_protection rpc address (agent s) = (qreply, p)"
    and w: "rpc_write_process_memory rpc address bytes (agent s) = (wreply, p')"
  shows "fst (query_memory_protection rpc address s) =
           (case qreply of
              Inr protection \<Rightarrow> Inr protection
            | Inl (RPCException m) \<Rightarrow> Inl (QueryProcessMemoryError (RPCException m))
            | Inl (OtherChannelError m) \<Rightarrow> Inl (Channel (OtherChannelError m))) \<and>
         rpc_trace (snd (query_memory_protection rpc address s)) =
           rpc_trace s @ [QueryMemoryProtection address qreply] \<and>
         ((\<exists>c. fst (query_memory_protection rpc address s) = Inl (QueryProcessMemoryError c)) \<longleftrightarrow>
          (\<exists>m. qreply = Inl (RPCException m))) \<and>
         (\<forall>c. fst (query_memory_protection rpc address s) = Inl (QueryProcessMemoryError c) \<longrightarrow>
            qreply = Inl c) \<and>
         fst (write_process_memory rpc address bytes s) =
           (case wreply of
              Inr u \<Rightarrow> Inr ()
            | Inl (RPCException m) \<Rightarrow> Inl (WriteProcessMemoryError (RPCException m))
            | Inl (OtherChannelError m) \<Rightarrow> Inl (Channel (OtherChannelError m))) \<and>
         rpc_trace (snd (write_process_memory rpc address bytes s)) =
           rpc_trace s @ [WriteProcessMemory address bytes wreply] \<and>
         ((\<exists>c. fst (write_process_memory rpc address bytes s) = Inl (WriteProcessMemoryError c)) \<longleftrightarrow>
          (\<exists>m. wreply = Inl (RPCException m))) \<and>
         (\<forall>c. fst (write_process_memory rpc address bytes s) = Inl (WriteProcessMemoryError c) \<longrightarrow>
            wreply = Inl c)"
proof -
  have Q: "query_memory_protection rpc address s =
      (case qreply of Inl e \<Rightarrow> Inl (reraise_from QueryProcessMemoryError e) | Inr x \<Rightarrow> Inr x,
       s\<lparr>agent := p, rpc_trace := rpc_trace s @ [QueryMemoryProtection address qreply]\<rparr>)"
    using q by (simp add: query_memory_protection_def call_query_memory_protection_def split: sum.splits)
  have W: "write_process_memory rpc address bytes s =
      (case wreply of Inl e \<Rightarrow> Inl (reraise_from WriteProcessMemoryError e) | Inr x \<Rightarrow> Inr (),
       s\<lparr>agent := p', rpc_trace := rpc_trace s @ [WriteProcessMemory address bytes wreply]\<rparr>)"
    using w by (simp add: write_process_memory_def call_write_process_memory_def split: sum.splits)
  have 1: "fst (query_memory_protection rpc address s) =
           (case qreply of
              Inr protection \<Rightarrow> Inr protection
            | Inl (RPCException m) \<Rightarrow> Inl (QueryProcessMemoryError (RPCException m))
            | Inl (OtherChannelError m) \<Rightarrow> Inl (Channel (OtherChannelError m)))"
    unfolding Q by (simp split: sum.splits channel_exc.splits)
  have 2: "rpc_trace (snd (query_memory_protection rpc address s)) =
           rpc_trace s @ [QueryMemoryProtection address qreply]"
    unfolding Q by simp
  have 3: "(\<exists>c. fst (query_memory_protection rpc address s) = Inl (QueryProcessMemoryError c)) \<longleftrightarrow>
          (\<exists>m. qreply = Inl (RPCException m))"
    unfolding 1 by (simp split: sum.splits channel_exc.splits)
  have 4: "\<forall>c. fst (query_memory_protection rpc address s) = Inl (QueryProcessMemoryError c) \<longrightarrow>
            qreply = Inl c"
    unfolding 1 by (simp split: sum.splits channel_exc.splits)
  have 5: "fst (write_process_memory rpc address bytes s) =
           (case wreply of
              Inr u \<Rightarrow> Inr ()
            | Inl (RPCException m) \<Rightarrow> Inl (WriteProcessMemoryError (RPCException m))
            | Inl (OtherChannelError m) \<Rightarrow> Inl (Channel (OtherChannelError m)))"
    unfolding W by (simp split: sum.splits channel_exc.splits)
  have 6: "rpc_trace (snd (write_process_memory rpc address bytes s)) =
           rpc_trace s @ [WriteProcessMemory address bytes wreply]"
    unfolding W by simp
  have 7: "(\<exists>c. fst (write_process_memory rpc address bytes s) = Inl (WriteProcessMemoryError c)) \<longleftrightarrow>
          (\<exists>m. wreply = Inl (RPCException m))"
    unfolding 5 by (simp split: sum.splits channel_exc.splits)
  have 8: "\<forall>c. fst (write_process_memory rpc address bytes s) = Inl (WriteProcessMemoryError c) \<longrightarrow>
            wreply = Inl c"
    unfolding 5 by (simp split: sum.splits channel_exc.splits)
  from 1 2 3 4 5 6 7 8 show ?thesis by (intro conjI)
qed

theorem query_write_error_translation_witness:
  "fst (query_memory_protection demo_rpc 0 (demo_controller 0)) =
     Inl (QueryProcessMemoryError (RPCException ''access violation'')) \<and>
   fst (write_process_memory demo_rpc 0 [1, 2] (demo_controller 0)) =
     Inl (WriteProcessMemoryError (RPCException ''access violation'')) \<and>
   fst (query_memory_protection demo_rpc 4096 (demo_controller 0)) = Inr ''r-x'' \<and>
   fst (write_process_memory demo_rpc 4096 [1, 2] (demo_controller 0)) = Inr ()"
proof -
  have q: "rpc_query_memory_protection demo_rpc 0 (agent (demo_controller 0)) =
      (Inl (RPCException ''access violation''), 1)"
    by (simp add: demo_rpc_def demo_controller_def)
  have w: "rpc_write_process_memory demo_rpc 0 [1, 2] (agent (demo_controller 0)) =
      (Inl (RPCException ''access violation''), 1)"
    by (simp add: demo_rpc_def demo_controller_def)
  have q': "rpc_query_memory_protection demo_rpc 4096 (agent (demo_controller 0)) = (Inr ''r-x'', 1)"
    by (simp add: demo_rpc_def demo_controller_def)
  have w': "rpc_write_process_memory demo_rpc 4096 [1, 2] (agent (demo_controller 0)) = (Inr (), 1)"
    by (simp add: demo_rpc_def demo_controller_def)
  note t = query_write_error_translation [OF q w]
  note t' = query_write_error_translation [OF q' w']
  from t have "fst (query_memory_protection demo_rpc 0 (demo_controller 0)) =
      (case (Inl (RPCException ''access violation'') :: channel_exc + string) of
              Inr protection \<Rightarrow> Inr protection
            | Inl (RPCException m) \<Rightarrow> Inl (QueryProcessMemoryError (RPCException m))
            | Inl (OtherChannelError m) \<Rightarrow> Inl (Channel (OtherChannelError m)))"
    by (rule conjunct1)
  then have a: "fst (query_memory_protection demo_rpc 0 (demo_controller 0)) =
     Inl (QueryProcessMemoryError (RPCException ''access violation''))"
    by simp
  from t have "fst (write_process_memory demo_rpc 0 [1, 2] (demo_controller 0)) =
      (case (Inl (RPCException ''access violation'') :: channel_exc + unit) of
              Inr u \<Rightarrow> Inr ()
            | Inl (RPCException m) \<Rightarrow> Inl (WriteProcessMemoryError (RPCException m))
            | Inl (OtherChannelError m) \<Rightarrow> Inl (Channel (OtherChannelError m)))"
    by (elim conjE)
  then have b: "fst (write_process_memory demo_rpc 0 [1, 2] (demo_controller 0)) =
     Inl (WriteProcessMemoryError (RPCException ''access violation''))"
    by simp
  from t' have "fst (query_memory_protection demo_rpc 4096 (demo_controller 0)) =
      (case (Inr ''r-x'' :: channel_exc + string) of
              Inr protection \<Rightarrow> Inr protection
            | Inl (RPCException m) \<Rightarrow> Inl (QueryProcessMemoryError (RPCException m))
            | Inl (OtherChannelError m) \<Rightarrow> Inl (Channel (OtherChannelError m)))"
    by (rule conjunct1)
  then have c: "fst (query_memory_protection demo_rpc 4096 (demo_controller 0)) = Inr ''r-x''"
    by simp
  from t' have "fst (write_process_memory demo_rpc 4096 [1, 2] (demo_controller 0)) =
      (case (Inr () :: channel_exc + unit) of
              Inr u \<Rightarrow> Inr ()
            | Inl (RPCException m) \<Rightarrow> Inl (WriteProcessMemoryError (RPCException m))
            | Inl (OtherChannelError m) \<Rightarrow> Inl (Channel (OtherChannelError m)))"
    by (elim conjE)
  then have d: "fst (write_process_memory demo_rpc 4096 [1, 2] (demo_controller 0)) = Inr ()"
    by simp
  from a b c d show ?thesis by (intro conjI)
qed

section \<open>Messages to the event handler\<close>

lemma getitem_Some: "map_of d k = Some v \<Longrightarrow> getitem d k = Inr v"
  by (simp add: getitem_def)

lemma getitem_None: "map_of d k = None \<Longrightarrow> getitem d k = Inl (KeyError k)"
  by (simp add: getitem_def)

lemma py_int16_hex_string: "is_hex_string s \<Longrightarrow> py_int16 (JStr s) = Inr (hex_address s)"
  by (simp add: int_of_str16_hex_string)

text \<open>
  C3.  On a message of type \<^verbatim>\<open>send\<close> whose payload has the event \<^verbatim>\<open>oep_reached\<close>
  and hexadecimal strings \<^verbatim>\<open>BASE\<close> and \<^verbatim>\<open>OEP\<close>, the handler invokes the notification
  callback exactly once, with the two unsigned integers the strings denote; it does
  nothing else (no remote call, no log record), and, the callback having returned,
  it returns without raising.
\<close>

theorem oep_reached_notifies_once:
  assumes "map_of message ''type'' = Some (JStr ''send'')"
    and "map_of message ''payload'' = Some (JObj payload)"
    and "map_of payload ''event'' = Some (JStr ''oep_reached'')"
    and "map_of payload ''BASE'' = Some (JStr b)"
    and "map_of payload ''OEP'' = Some (JStr p)"
    and "is_hex_string b" and "is_hex_string p"
    and "notify_oep_reached (hex_address b) (hex_address p) (hw_client w) = (Inr (), c)"
  shows "frida_callback notify_oep_reached message data w =
           (Inr (), w\<lparr>hw_trace := hw_trace w @ [NotifyOepReached (hex_address b) (hex_address p)],
                       hw_client := c\<rparr>) \<and>
         0 \<le> hex_address b \<and> 0 \<le> hex_address p"
  using assms
  by (simp add: frida_callback_def getitem_Some dict_get_def int_of_str16_hex_string call_notify_def
      hex_address_nonneg)

lemma demo_hex: "is_hex_string ''0x1000''" "is_hex_string ''0x1234''"
  "hex_address ''0x1000'' = 4096" "hex_address ''0x1234'' = 4660"
  by (simp_all add: is_hex_string_def hex_digits_def hex_address_def hex_value_def hex_digit_def)

theorem oep_reached_notifies_once_witness:
  "frida_callback demo_notify demo_oep_message () demo_world =
     (Inr (), \<lparr>hw_trace = [NotifyOepReached 4096 4660], hw_client = [(4096, 4660)]\<rparr>)"
proof -
  have "frida_callback demo_notify demo_oep_message () demo_world =
           (Inr (), demo_world\<lparr>hw_trace := hw_trace demo_world @
                [NotifyOepReached (hex_address ''0x1000'') (hex_address ''0x1234'')],
              hw_client := [(4096, 4660)]\<rparr>) \<and>
         0 \<le> hex_address ''0x1000'' \<and> 0 \<le> hex_address ''0x1234''"
    by (rule oep_reached_notifies_once [where payload = "[(''event'', JStr ''oep_reached''),
                          (''BASE'', JStr ''0x1000''), (''OEP'', JStr ''0x1234'')]"])
       (simp_all add: demo_oep_message_def demo_hex demo_notify_def demo_world_def)
  then show ?thesis by (simp add: demo_hex demo_world_def)
qed

text \<open>
  A message whose type is neither \<^verbatim>\<open>error\<close> nor \<^verbatim>\<open>send\<close>, and a \<^verbatim>\<open>send\<close> message
  whose payload is a dictionary that names an event other than \<^verbatim>\<open>oep_reached\<close> (or
  none), makes the handler raise \<^verbatim>\<open>NotImplementedError\<close>; the world is as it was, so
  the callback was not invoked and nothing was logged.
\<close>

lemma unknown_message_not_implemented:
  assumes "(\<exists>t. map_of message ''type'' = Some t \<and> t \<noteq> JStr ''error'' \<and> t \<noteq> JStr ''send'') \<or>
           (\<exists>payload. map_of message ''type'' = Some (JStr ''send'') \<and>
              map_of message ''payload'' = Some (JObj payload) \<and>
              dict_get payload ''event'' (JStr '''') \<noteq> JStr ''oep_reached'')"
  shows "frida_callback notify_oep_reached message data w =
           (Inl (NotImplementedError ''Unknown message received''), w)"
  using assms
  by (auto simp: frida_callback_def getitem_Some)

lemma unknown_message_not_implemented_demo:
  "frida_callback demo_notify
     [(''type'', JStr ''send''), (''payload'', JObj [(''event'', JStr ''unknown'')])] () demo_world =
     (Inl (NotImplementedError ''Unknown message received''), demo_world) \<and>
   frida_callback demo_notify [(''type'', JStr ''log''), (''payload'', JStr ''hello'')] () demo_world =
     (Inl (NotImplementedError ''Unknown message received''), demo_world)"
proof -
  have a: "frida_callback demo_notify
     [(''type'', JStr ''send''), (''payload'', JObj [(''event'', JStr ''unknown'')])] () demo_world =
     (Inl (NotImplementedError ''Unknown message received''), demo_world)"
    by (rule unknown_message_not_implemented) (simp add: dict_get_def)
  have b: "frida_callback demo_notify [(''type'', JStr ''log''), (''payload'', JStr ''hello'')] ()
      demo_world = (Inl (NotImplementedError ''Unknown message received''), demo_world)"
    by (rule unknown_message_not_implemented) simp
  from a b show ?thesis by (rule conjI)
qed

text \<open>
  C7.  The claim is that every message of another type than \<^verbatim>\<open>error\<close> and \<^verbatim>\<open>send\<close>,
  and every \<^verbatim>\<open>send\<close> message whose payload event is not \<^verbatim>\<open>oep_reached\<close>, makes the
  handler raise \<^verbatim>\<open>NotImplementedError\<close>.  The code reads \<^verbatim>\<open>message['payload']\<close> with a
  subscript and then calls \<^verbatim>\<open>payload.get\<close>: a \<^verbatim>\<open>send\<close> message without a payload
  raises \<^verbatim>\<open>KeyError\<close>, and one whose payload is a string raises \<^verbatim>\<open>AttributeError\<close>;
  neither reaches the \<^verbatim>\<open>raise NotImplementedError\<close> that ends the handler.
\<close>

theorem send_without_event_raises_other:
  "frida_callback notify_oep_reached [(''type'', JStr ''send'')] data w =
     (Inl (KeyError ''payload''), w) \<and>
   frida_callback notify_oep_reached
     [(''type'', JStr ''send''), (''payload'', JStr ''hello'')] data w =
     (Inl AttributeError, w)"
  by (simp add: frida_callback_def getitem_def)

theorem send_without_event_raises_other_witness:
  "frida_callback demo_notify [(''type'', JStr ''send'')] () demo_world =
     (Inl (KeyError ''payload''), \<lparr>hw_trace = [], hw_client = []\<rparr>) \<and>
   frida_callback demo_notify [(''type'', JStr ''send''), (''payload'', JStr ''hello'')] () demo_world =
     (Inl AttributeError, \<lparr>hw_trace = [], hw_client = []\<rparr>)"
  using send_without_event_raises_other [of demo_notify "()" demo_world]
  by (simp add: demo_world_def)

text \<open>
  An \<^verbatim>\<open>error\<close> message that carries a \<^verbatim>\<open>stack\<close> field is logged, message first and
  stack second, and dropped: the handler returns and the callback is not invoked.
\<close>

lemma error_message_with_stack_logged:
  assumes "map_of message ''type'' = Some (JStr ''error'')"
    and "map_of message ''stack'' = Some stack"
  shows "frida_callback notify_oep_reached message data w =
           (Inr (), w\<lparr>hw_trace := hw_trace w @ [LogError (JObj message), LogError stack]\<rparr>)"
  using assms by (simp add: frida_callback_def getitem_Some log_error_def)

text \<open>
  C8.  The claim is that every \<^verbatim>\<open>error\<close> message, its \<^verbatim>\<open>stack\<close> field being
  optional, is logged and dropped without an exception.  The code reads
  \<^verbatim>\<open>message['stack']\<close> with a subscript: on an \<^verbatim>\<open>error\<close> message without that field
  it logs the message and then raises \<^verbatim>\<open>KeyError\<close> out of the handler.
\<close>

theorem error_message_without_stack_raises:
  "frida_callback notify_oep_reached
     [(''type'', JStr ''error''), (''description'', JStr ''boom'')] data w =
     (Inl (KeyError ''stack''),
      w\<lparr>hw_trace := hw_trace w @
           [LogError (JObj [(''type'', JStr ''error''), (''description'', JStr ''boom'')])]\<rparr>)"
  by (simp add: frida_callback_def getitem_def log_error_def)

theorem error_message_without_stack_raises_witness:
  "frida_callback demo_notify
     [(''type'', JStr ''error''), (''description'', JStr ''boom'')] () demo_world =
     (Inl (KeyError ''stack''),
      \<lparr>hw_trace = [LogError (JObj [(''type'', JStr ''error''), (''description'', JStr ''boom'')])],
       hw_client = []\<rparr>)"
  using error_message_without_stack_raises [of demo_notify "()" demo_world]
  by (simp add: demo_world_def)

section \<open>The export cache\<close>

lemma exports_dict_of_step:
  "exports_dict_of (e # es) acc =
     (case export_key e of Inl x \<Rightarrow> Inl x | Inr k \<Rightarrow> exports_dict_of es (acc(k \<mapsto> e)))"
  by (simp add: export_key_def split: sum.splits)

lemma exports_dict_of_shape:
  "exports_dict_of es acc = Inr m \<Longrightarrow>
     (\<forall>e\<in>set es. \<exists>k. export_key e = Inr k) \<and>
     (\<forall>k. m k = (case filter (\<lambda>e. export_key e = Inr k) es of
                    [] \<Rightarrow> acc k | f # fs \<Rightarrow> Some (last (f # fs))))"
proof (induction es arbitrary: acc)
  case Nil
  then show ?case by simp
next
  case (Cons e es)
  from Cons.prems obtain k0 where k0: "export_key e = Inr k0"
    and rec: "exports_dict_of es (acc(k0 \<mapsto> e)) = Inr m"
    unfolding exports_dict_of_step by (cases "export_key e") auto
  from Cons.IH [OF rec] have keys: "\<forall>e\<in>set es. \<exists>k. export_key e = Inr k"
    and val: "\<And>k. m k = (case filter (\<lambda>e. export_key e = Inr k) es of
                    [] \<Rightarrow> (acc(k0 \<mapsto> e)) k | f # fs \<Rightarrow> Some (last (f # fs)))"
    by auto
  have "m k = (case filter (\<lambda>e. export_key e = Inr k) (e # es) of
                    [] \<Rightarrow> acc k | f # fs \<Rightarrow> Some (last (f # fs)))" for k
    using val [of k] k0 by (cases "filter (\<lambda>e. export_key e = Inr k) es") auto
  with keys k0 show ?case by auto
qed

lemma exports_dict_of_dom:
  assumes "exports_dict_of es Map.empty = Inr m"
  shows "dom m = {k. \<exists>e\<in>set es. export_key e = Inr k}"
proof -
  from exports_dict_of_shape [OF assms]
  have val: "\<And>k. m k = (case filter (\<lambda>e. export_key e = Inr k) es of
                    [] \<Rightarrow> None | f # fs \<Rightarrow> Some (last (f # fs)))"
    by auto
  have "m k \<noteq> None \<longleftrightarrow> (\<exists>e\<in>set es. export_key e = Inr k)" for k
  proof (cases "filter (\<lambda>e. export_key e = Inr k) es")
    case Nil
    then have "\<not> (\<exists>e\<in>set es. export_key e = Inr k)" by (simp add: filter_empty_conv)
    with Nil val [of k] show ?thesis by simp
  next
    case (Cons f fs)
    then have "f \<in> set (filter (\<lambda>e. export_key e = Inr k) es)" by simp
    then have "\<exists>e\<in>set es. export_key e = Inr k" by auto
    with Cons val [of k] show ?thesis by simp
  qed
  then show ?thesis by (auto simp: dom_def)
qed

lemma exports_dict_of_last:
  assumes "exports_dict_of es Map.empty = Inr m" and "k \<in> dom m"
  shows "m k = Some (last (filter (\<lambda>e. export_key e = Inr k) es))"
proof -
  from exports_dict_of_shape [OF assms(1)]
  have val: "m k = (case filter (\<lambda>e. export_key e = Inr k) es of
                    [] \<Rightarrow> None | f # fs \<Rightarrow> Some (last (f # fs)))"
    by auto
  with assms(2) show ?thesis
    by (cases "filter (\<lambda>e. export_key e = Inr k) es") auto
qed

lemma exports_dict_of_card:
  assumes "exports_dict_of es Map.empty = Inr m"
  shows "card (dom m) \<le> length es"
proof -
  have "dom m \<subseteq> (\<lambda>e. case export_key e of Inr k \<Rightarrow> k | Inl x \<Rightarrow> 0) ` set es"
    unfolding exports_dict_of_dom [OF assms] by force
  then have "card (dom m) \<le> card ((\<lambda>e. case export_key e of Inr k \<Rightarrow> k | Inl x \<Rightarrow> 0) ` set es)"
    by (intro card_mono) auto
  also have "\<dots> \<le> card (set es)" by (rule card_image_le) simp
  also have "\<dots> \<le> length es" by (rule card_length)
  finally show ?thesis .
qed

lemma enumerate_exported_functions_fresh:
  assumes "exported_functions_cache s = None \<or> update_cache"
    and "rpc_enumerate_exported_functions rpc (agent s) = (reply, p)"
  shows "enumerate_exported_functions rpc update_cache s =
     (let s1 = s\<lparr>agent := p, rpc_trace := rpc_trace s @ [EnumerateExportedFunctions reply]\<rparr> in
      case reply of
        Inl e \<Rightarrow> (Inl (Channel e), s1)
      | Inr records \<Rightarrow>
          (case exports_dict_of records Map.empty of
             Inl x \<Rightarrow> (Inl x, s1)
           | Inr m \<Rightarrow> (Inr m, s1\<lparr>exported_functions_cache := Some m\<rparr>)))"
  using assms
  by (auto simp: enumerate_exported_functions_def call_enumerate_exported_functions_def Let_def
      split: sum.splits)


text \<open>
  C10.  When the enumeration is fetched from the agent and the mapping is returned,
  its key set is the set of distinct parsed addresses of the records, each key holds
  the record that stands latest in the list among those with that address, the
  mapping is what the cache now holds, and it has no more entries than the list has
  records (fewer when addresses repeat).
\<close>

theorem exported_functions_last_duplicate_wins:
  assumes run: "enumerate_exported_functions rpc update_cache s = (Inr m, s')"
    and fresh: "exported_functions_cache s = None \<or> update_cache"
    and reply: "rpc_enumerate_exported_functions rpc (agent s) = (Inr records, p)"
  shows "dom m = {k. \<exists>e\<in>set records. export_key e = Inr k} \<and>
         (\<forall>k\<in>dom m. m k = Some (last (filter (\<lambda>e. export_key e = Inr k) records))) \<and>
         exported_functions_cache s' = Some m \<and>
         card (dom m) \<le> length records"
proof -
  from run enumerate_exported_functions_fresh [OF fresh reply]
  have built: "exports_dict_of records Map.empty = Inr m"
    and cache: "exported_functions_cache s' = Some m"
    by (auto simp: Let_def split: sum.splits)
  from exports_dict_of_dom [OF built] exports_dict_of_last [OF built] exports_dict_of_card [OF built]
    cache
  show ?thesis by blast
qed

lemma demo_export_keys:
  "export_key [(''address'', JStr ''0x10''), (''name'', JStr n)] = Inr 16"
  "export_key [(''address'', JStr ''0x20''), (''name'', JStr n)] = Inr 32"
  by (simp_all add: export_key_def getitem_def int_of_str16_def py_isspace_def hex_digit_def)

lemma demo_enumerate_exported_functions:
  "enumerate_exported_functions demo_rpc False (demo_controller 0) =
     (Inr [16 \<mapsto> [(''address'', JStr ''0x10''), (''name'', JStr ''open64'')],
           32 \<mapsto> [(''address'', JStr ''0x20''), (''name'', JStr ''read'')]],
      \<lparr>agent = 1, rpc_trace = [EnumerateExportedFunctions (Inr (demo_exports 0))],
       exported_functions_cache =
         Some [16 \<mapsto> [(''address'', JStr ''0x10''), (''name'', JStr ''open64'')],
               32 \<mapsto> [(''address'', JStr ''0x20''), (''name'', JStr ''read'')]]\<rparr>)"
proof -
  have r: "rpc_enumerate_exported_functions demo_rpc (agent (demo_controller 0)) =
      (Inr (demo_exports 0), 1)"
    by (simp add: demo_rpc_def demo_controller_def)
  have f: "exported_functions_cache (demo_controller 0) = None \<or> False"
    by (simp add: demo_controller_def)
  have d: "exports_dict_of (demo_exports 0) Map.empty =
      Inr [16 \<mapsto> [(''address'', JStr ''0x10''), (''name'', JStr ''open64'')],
           32 \<mapsto> [(''address'', JStr ''0x20''), (''name'', JStr ''read'')]]"
    by (simp add: demo_exports_def exports_dict_of_step demo_export_keys fun_upd_twist del: exports_dict_of.simps(2))
  show ?thesis
    unfolding enumerate_exported_functions_fresh [OF f r]
    by (simp add: d demo_controller_def)
qed

theorem exported_functions_last_duplicate_wins_witness:
  "(\<exists>m s'. enumerate_exported_functions demo_rpc False (demo_controller 0) = (Inr m, s') \<and>
      length (demo_exports 0) = 3 \<and> dom m = {16, 32} \<and>
      m 16 = Some [(''address'', JStr ''0x10''), (''name'', JStr ''open64'')] \<and>
      exported_functions_cache s' = Some m)"
proof -
  let ?m = "[16 \<mapsto> [(''address'', JStr ''0x10''), (''name'', JStr ''open64'')],
           32 \<mapsto> [(''address'', JStr ''0x20''), (''name'', JStr ''read'')]] :: int \<rightharpoonup> dict"
  have r: "rpc_enumerate_exported_functions demo_rpc (agent (demo_controller 0)) =
      (Inr (demo_exports 0), 1)"
    by (simp add: demo_rpc_def demo_controller_def)
  have f: "exported_functions_cache (demo_controller 0) = None \<or> False"
    by (simp add: demo_controller_def)
  note t = exported_functions_last_duplicate_wins [OF demo_enumerate_exported_functions f r]
  from t have dm: "dom ?m = {k. \<exists>e\<in>set (demo_exports 0). export_key e = Inr k}"
    by (rule conjunct1)
  have "{k. \<exists>e\<in>set (demo_exports 0). export_key e = Inr k} = {16, 32}"
    by (auto simp: demo_exports_def demo_export_keys)
  with dm have dom: "dom ?m = {16, 32}" by simp
  from t have "\<forall>k\<in>dom ?m. ?m k = Some (last (filter (\<lambda>e. export_key e = Inr k) (demo_exports 0)))"
    by (elim conjE)
  with dom have "?m 16 = Some (last (filter (\<lambda>e. export_key e = Inr 16) (demo_exports 0)))"
    by blast
  then have v: "?m 16 = Some [(''address'', JStr ''0x10''), (''name'', JStr ''open64'')]"
    by (simp add: demo_exports_def demo_export_keys)
  from t have c: "exported_functions_cache \<lparr>agent = 1, rpc_trace = [EnumerateExportedFunctions (Inr (demo_exports 0))],
       exported_functions_cache = Some ?m\<rparr> = Some ?m"
    by simp
  have l: "length (demo_exports 0) = 3" by (simp add: demo_exports_def)
  from demo_enumerate_exported_functions l dom v c show ?thesis by blast
qed







section \<open>Range lookups\<close>











lemma demo_find_range_with_data:
  "find_range_by_address demo_rpc 4096 True (demo_controller 2) =
     (Inr (Some \<lparr>mr_base = 4096, mr_size = JNum 2, mr_protection = JStr ''r-x'',
                  mr_data = Some [3]\<rparr>),
      \<lparr>agent = 4,
       rpc_trace = [FindRangeByAddress 4096 (Inr (Some demo_range)),
                    ReadProcessMemory 4096 2 (Inr [3])],
       exported_functions_cache = None\<rparr>)"
  by (simp add: find_range_by_address_def call_find_range_by_address_def
      frida_range_to_mem_range_def getitem_def int_of_str16_def py_isspace_def hex_digit_def
      demo_simps)

lemma demo_find_range_without_data:
  "find_range_by_address demo_rpc 4096 False (demo_controller 0) =
     (Inr (Some \<lparr>mr_base = 4096, mr_size = JNum 2, mr_protection = JStr ''r-x'',
                  mr_data = None\<rparr>),
      \<lparr>agent = 1,
       rpc_trace = [FindRangeByAddress 4096 (Inr (Some demo_range))],
       exported_functions_cache = None\<rparr>)"
  by (simp add: find_range_by_address_def call_find_range_by_address_def
      frida_range_to_mem_range_def getitem_def int_of_str16_def py_isspace_def hex_digit_def
      demo_simps)


















end
